theory Spec2Isabelle
  imports Complex_Main "HOL-Library.Sublist"
begin

section \<open>Data model of the volume monitor\<close>

text \<open>
  The two monitor files \<^verbatim>\<open>src/alert.py\<close> and \<^verbatim>\<open>src/haha.py\<close> each define a class
  \<^verbatim>\<open>StockVolumeMonitor\<close>. The fields read by the session gate, the history store, the
  detector and the dispatcher are the same in both, so one record serves both files.

  A timezone-aware \<^verbatim>\<open>datetime\<close> is the instant it denotes, counted in microseconds since
  the epoch (comparison of aware datetimes compares instants); a \<^verbatim>\<open>timedelta\<close> is a number
  of microseconds. \<^verbatim>\<open>datetime.now(self.tz)\<close> reads the clock: every function that calls it
  takes the reading as the argument \<open>now\<close>. Volumes are Python/numpy floats, idealised as
  real numbers (no NaN, no infinity, no rounding).
\<close>

type_synonym timestamp = int
type_synonym volume = real

definition timedelta_minutes :: "int \<Rightarrow> int" where
  "timedelta_minutes n = n * 60000000"

definition timedelta_hours :: "int \<Rightarrow> int" where
  "timedelta_hours n = n * 3600000000"

text \<open>
  \<^verbatim>\<open>self.tz = pytz.timezone('Asia/Jakarta')\<close> is kept as its offset from UTC in seconds
  (WIB, seven hours, no daylight saving). \<^verbatim>\<open>volume_history\<close> is a
  \<^verbatim>\<open>defaultdict(list)\<close>: a key that was never touched is absent (\<open>None\<close>).
  \<^verbatim>\<open>monitored_groups\<close> holds the chat ids appended by \<^verbatim>\<open>start_command\<close>: integers
  (the annotation says \<^verbatim>\<open>List[str]\<close>), negative for groups.
\<close>

record monitor =
  tz :: int
  monitored_groups :: "int list"
  volume_history :: "string \<rightharpoonup> (timestamp \<times> volume) list"
  trading_start :: int
  trading_end :: int
  volume_threshold :: real
  avg_window_minutes :: int

definition init_monitor :: monitor where
  "init_monitor =
     \<lparr> tz = 25200,
       monitored_groups = [],
       volume_history = Map.empty,
       trading_start = 9,
       trading_end = 16,
       volume_threshold = 2,
       avg_window_minutes = 120 \<rparr>"

section \<open>Session gate\<close>

text \<open>\<^verbatim>\<open>now.hour\<close> of an aware datetime: the hour of the day of the wall clock at the
  zone's offset.\<close>

definition hour :: "int \<Rightarrow> timestamp \<Rightarrow> int" where
  "hour off t = ((t div 1000000 + off) div 3600) mod 24"

text \<open>\<^verbatim>\<open>is_trading_hours\<close> (alert.py 548-551, haha.py 442-445, the same text).\<close>

definition is_trading_hours :: "monitor \<Rightarrow> timestamp \<Rightarrow> bool" where
  "is_trading_hours self now =
     (trading_start self \<le> hour (tz self) now \<and> hour (tz self) now < trading_end self)"

text \<open>The instant at which the wall clock at offset \<open>off\<close> shows day \<open>d\<close> (counted from
  the epoch), \<open>h:mi:s\<close> and \<open>us\<close> microseconds.\<close>

definition wall_clock :: "int \<Rightarrow> int \<Rightarrow> int \<Rightarrow> int \<Rightarrow> int \<Rightarrow> int \<Rightarrow> timestamp" where
  "wall_clock off d h mi s us = ((((d * 24 + h) * 60 + mi) * 60 + s) - off) * 1000000 + us"

section \<open>Volume history store\<close>

text \<open>\<^verbatim>\<open>np.mean\<close> of a list of numbers; the code calls it on non-empty lists only.\<close>

definition np_mean :: "real list \<Rightarrow> real" where
  "np_mean xs = sum_list xs / real (length xs)"

text \<open>\<^verbatim>\<open>calculate_average_volume\<close> of alert.py (lines 580-599).\<close>

definition calculate_average_volume :: "monitor \<Rightarrow> timestamp \<Rightarrow> string \<Rightarrow> volume" where
  "calculate_average_volume self now symbol =
     (case volume_history self symbol of
        None \<Rightarrow> 0
      | Some history \<Rightarrow>
          if length history < 2 then 0
          else
            let cutoff_time = now - timedelta_minutes (avg_window_minutes self);
                recent_volumes = map snd (filter (\<lambda>(timestamp, vol). timestamp \<ge> cutoff_time) history)
            in if recent_volumes = [] then 0 else np_mean recent_volumes)"

text \<open>\<^verbatim>\<open>calculate_average_volume\<close> of haha.py (lines 474-493).\<close>

definition haha_calculate_average_volume :: "monitor \<Rightarrow> timestamp \<Rightarrow> string \<Rightarrow> volume" where
  "haha_calculate_average_volume self now symbol =
     (case volume_history self symbol of
        None \<Rightarrow> 0
      | Some history \<Rightarrow>
          if length history < 2 then 0
          else
            let cutoff_time = now - timedelta_minutes (avg_window_minutes self);
                recent_volumes = map snd (filter (\<lambda>(timestamp, vol). timestamp \<ge> cutoff_time) history)
            in if recent_volumes = [] then 0 else np_mean recent_volumes)"

text \<open>
  The store step of \<^verbatim>\<open>monitor_stocks\<close> (alert.py 663-671, haha.py 553-561, the same text):
  the sample is appended to the symbol's list (created empty by the \<^verbatim>\<open>defaultdict\<close> when
  the key is absent), then the list is replaced by its entries not older than four hours.
\<close>

definition store_volume :: "monitor \<Rightarrow> string \<Rightarrow> timestamp \<Rightarrow> volume \<Rightarrow> monitor" where
  "store_volume self symbol current_time vol =
     (let appended = (case volume_history self symbol of None \<Rightarrow> [] | Some h \<Rightarrow> h)
                       @ [(current_time, vol)];
          cutoff_time = current_time - timedelta_hours 4
      in self\<lparr>volume_history := (volume_history self)
                (symbol \<mapsto> filter (\<lambda>(ts, vol). ts \<ge> cutoff_time) appended)\<rparr>)"

section \<open>Anomaly detector\<close>

text \<open>\<^verbatim>\<open>should_alert\<close> of alert.py (lines 601-613).\<close>

definition should_alert :: "monitor \<Rightarrow> timestamp \<Rightarrow> string \<Rightarrow> volume \<Rightarrow> bool" where
  "should_alert self now symbol current_volume =
     (if current_volume < 90000 then False
      else
        let avg_volume = calculate_average_volume self now symbol
        in if avg_volume = 0 then False
           else
             let volume_ratio = current_volume / avg_volume
             in volume_ratio \<ge> volume_threshold self)"

text \<open>\<^verbatim>\<open>should_alert\<close> of haha.py (lines 495-503): no absolute floor.\<close>

definition haha_should_alert :: "monitor \<Rightarrow> timestamp \<Rightarrow> string \<Rightarrow> volume \<Rightarrow> bool" where
  "haha_should_alert self now symbol current_volume =
     (let avg_volume = haha_calculate_average_volume self now symbol
      in if avg_volume = 0 then False
         else
           let volume_ratio = current_volume / avg_volume
           in volume_ratio \<ge> volume_threshold self)"

text \<open>A monitor with the default configuration whose history for \<^verbatim>\<open>BBRI.JK\<close> holds the
  given samples.\<close>

definition tracking :: "(timestamp \<times> volume) list \<Rightarrow> monitor" where
  "tracking h = init_monitor\<lparr>volume_history := [''BBRI.JK'' \<mapsto> h]\<rparr>"

text \<open>The list \<^verbatim>\<open>self.volume_history[symbol]\<close> as a read of the \<^verbatim>\<open>defaultdict\<close> gives it:
  empty for a key that is absent.\<close>

definition history_of :: "monitor \<Rightarrow> string \<Rightarrow> (timestamp \<times> volume) list" where
  "history_of self symbol = (case volume_history self symbol of None \<Rightarrow> [] | Some h \<Rightarrow> h)"

text \<open>The samples of a history inside the trailing averaging window at \<open>now\<close>: those the
  comprehension of \<^verbatim>\<open>calculate_average_volume\<close> selects, \<^verbatim>\<open>timestamp >= cutoff_time\<close>.\<close>

definition in_window :: "monitor \<Rightarrow> timestamp \<Rightarrow> (timestamp \<times> volume) list \<Rightarrow> (timestamp \<times> volume) list" where
  "in_window self now history =
     filter (\<lambda>(timestamp, vol). timestamp \<ge> now - timedelta_minutes (avg_window_minutes self)) history"

section \<open>Notification dispatcher\<close>

text \<open>
  The Telegram client \<^verbatim>\<open>self.bot\<close> is outside the repository. It is a pair of operations on
  an explicit world state \<open>'w\<close>: each call returns the new world and either the exception
  it raised (\<open>Inl\<close>, its text; a subclass of \<^verbatim>\<open>Exception\<close>) or its result (\<open>Inr\<close>; for
  \<^verbatim>\<open>send_message\<close> the \<^verbatim>\<open>message_id\<close> of the message sent).
\<close>

type_synonym exn = string

record 'w bot =
  send_message :: "'w \<Rightarrow> int \<Rightarrow> string \<Rightarrow> (exn + int) \<times> 'w"
  pin_chat_message :: "'w \<Rightarrow> int \<Rightarrow> int \<Rightarrow> (exn + unit) \<times> 'w"

text \<open>What a dispatcher run does, in order: the client calls with their outcomes, and the
  lines written by \<^verbatim>\<open>logger.error\<close> (destination and exception).\<close>

datatype effect =
    SendMessage int string "exn + int"
  | PinChatMessage int int "exn + unit"
  | LogError int exn

text \<open>A \<^verbatim>\<open>for group_id in self.monitored_groups\<close> loop whose body is a \<^verbatim>\<open>try\<close> block that
  handles every exception: the body always completes, and the loop goes on.\<close>

fun for_each_group :: "(int \<Rightarrow> 'w \<Rightarrow> effect list \<times> 'w) \<Rightarrow> int list \<Rightarrow> 'w \<Rightarrow> effect list \<times> 'w" where
  "for_each_group body [] w = ([], w)"
| "for_each_group body (group_id # rest) w =
     (case body group_id w of
        (effs, w') \<Rightarrow>
          (case for_each_group body rest w' of
             (effs', w'') \<Rightarrow> (effs @ effs', w'')))"

text \<open>The loop body of \<^verbatim>\<open>send_volume_alert\<close> (alert.py 635-642, haha.py 525-532).\<close>

definition send_alert_to :: "'w bot \<Rightarrow> string \<Rightarrow> int \<Rightarrow> 'w \<Rightarrow> effect list \<times> 'w" where
  "send_alert_to b message group_id w =
     (case send_message b w group_id message of
        (Inr mid, w') \<Rightarrow> ([SendMessage group_id message (Inr mid)], w')
      | (Inl e, w') \<Rightarrow> ([SendMessage group_id message (Inl e), LogError group_id e], w'))"

text \<open>
  The delivery loop of \<^verbatim>\<open>send_volume_alert\<close> (alert.py 633-642, haha.py 523-532, the same
  text); the formatted alert text is the argument \<open>message\<close>. The first component is what
  the caller gets: an exception (\<open>Inl\<close>) or the returned value, which is \<^verbatim>\<open>None\<close>.
\<close>

definition send_volume_alert ::
  "monitor \<Rightarrow> 'w bot \<Rightarrow> string \<Rightarrow> 'w \<Rightarrow> (exn + unit) \<times> effect list \<times> 'w" where
  "send_volume_alert self b message w =
     (case for_each_group (send_alert_to b message) (monitored_groups self) w of
        (effs, w') \<Rightarrow> (Inr (), effs, w'))"

text \<open>The loop body of \<^verbatim>\<open>broadcast_message\<close> (alert.py 257-267): the pin is inside the same
  \<^verbatim>\<open>try\<close> block as the send.\<close>

definition broadcast_to :: "'w bot \<Rightarrow> string \<Rightarrow> int \<Rightarrow> 'w \<Rightarrow> effect list \<times> 'w" where
  "broadcast_to b text group_id w =
     (case send_message b w group_id text of
        (Inl e, w1) \<Rightarrow> ([SendMessage group_id text (Inl e), LogError group_id e], w1)
      | (Inr mid, w1) \<Rightarrow>
          if group_id < 0 then
            (case pin_chat_message b w1 group_id mid of
               (Inl e, w2) \<Rightarrow>
                 ([SendMessage group_id text (Inr mid),
                   PinChatMessage group_id mid (Inl e), LogError group_id e], w2)
             | (Inr u, w2) \<Rightarrow>
                 ([SendMessage group_id text (Inr mid),
                   PinChatMessage group_id mid (Inr u)], w2))
          else ([SendMessage group_id text (Inr mid)], w1))"

text \<open>\<^verbatim>\<open>broadcast_message\<close> (alert.py 254-267; haha.py has no such method).\<close>

definition broadcast_message ::
  "monitor \<Rightarrow> 'w bot \<Rightarrow> string \<Rightarrow> 'w \<Rightarrow> (exn + unit) \<times> effect list \<times> 'w" where
  "broadcast_message self b text w =
     (case for_each_group (broadcast_to b text) (monitored_groups self) w of
        (effs, w') \<Rightarrow> (Inr (), effs, w'))"

text \<open>Readings of a run: the destinations of the send calls, the successful sends with
  their message ids, the failed sends, the pin calls, the failed calls of either kind,
  and the log.\<close>

fun attempted :: "effect list \<Rightarrow> int list" where
  "attempted [] = []"
| "attempted (SendMessage g t r # es) = g # attempted es"
| "attempted (e # es) = attempted es"

fun delivered :: "effect list \<Rightarrow> (int \<times> int) list" where
  "delivered [] = []"
| "delivered (SendMessage g t (Inr mid) # es) = (g, mid) # delivered es"
| "delivered (e # es) = delivered es"

fun send_failures :: "effect list \<Rightarrow> (int \<times> exn) list" where
  "send_failures [] = []"
| "send_failures (SendMessage g t (Inl e) # es) = (g, e) # send_failures es"
| "send_failures (e # es) = send_failures es"

fun pin_calls :: "effect list \<Rightarrow> (int \<times> int) list" where
  "pin_calls [] = []"
| "pin_calls (PinChatMessage g mid r # es) = (g, mid) # pin_calls es"
| "pin_calls (e # es) = pin_calls es"

fun failures :: "effect list \<Rightarrow> (int \<times> exn) list" where
  "failures [] = []"
| "failures (SendMessage g t (Inl e) # es) = (g, e) # failures es"
| "failures (PinChatMessage g mid (Inl e) # es) = (g, e) # failures es"
| "failures (e # es) = failures es"

fun logged :: "effect list \<Rightarrow> (int \<times> exn) list" where
  "logged [] = []"
| "logged (LogError g e # es) = (g, e) # logged es"
| "logged (e # es) = logged es"

text \<open>A client without state that refuses the destinations in \<open>bad\<close> and cannot pin in the
  chats in \<open>nopin\<close>; the message sent to chat \<open>g\<close> gets the id \<open>\<bar>g\<bar>\<close>.\<close>

definition test_bot :: "int list \<Rightarrow> int list \<Rightarrow> unit bot" where
  "test_bot bad nopin =
     \<lparr> send_message = (\<lambda>w g t. (if g \<in> set bad then Inl ''Forbidden'' else Inr \<bar>g\<bar>, w)),
       pin_chat_message = (\<lambda>w g mid. (if g \<in> set nopin then Inl ''BadRequest'' else Inr (), w)) \<rparr>"

definition subscribed :: "int list \<Rightarrow> monitor" where
  "subscribed gs = init_monitor\<lparr>monitored_groups := gs\<rparr>"

section \<open>Shared facts\<close>

lemma haha_calculate_average_volume_eq:
  "haha_calculate_average_volume self now symbol = calculate_average_volume self now symbol"
  by (simp add: haha_calculate_average_volume_def calculate_average_volume_def)

lemma tracking_avg_two:
  "calculate_average_volume (tracking [(0, a), (0, b)]) 60000000 ''BBRI.JK'' = (a + b) / 2"
  by (simp add: calculate_average_volume_def tracking_def init_monitor_def
      timedelta_minutes_def np_mean_def)

lemma store_volume_history:
  "volume_history (store_volume self symbol t v) symbol
     = Some (filter (\<lambda>(ts, vol). ts \<ge> t - timedelta_hours 4) (history_of self symbol) @ [(t, v)])"
  by (simp add: store_volume_def history_of_def timedelta_hours_def Let_def split: option.splits)

lemma calculate_average_volume_short:
  "volume_history self symbol = Some h \<Longrightarrow> length h < 2 \<Longrightarrow>
     calculate_average_volume self now symbol = 0"
  by (simp add: calculate_average_volume_def)

lemma first_sample_no_baseline:
  assumes "history_of self symbol = []"
  shows "calculate_average_volume (store_volume self symbol t1 v) t2 symbol = 0"
  by (rule calculate_average_volume_short [OF store_volume_history]) (simp add: assms)

section \<open>The anomaly detector\<close>

text \<open>
  C1, as stated, fails for the detector of haha.py, which has no floor: at the claim's
  own instance (current volume 50000, below 90000; windowed average 10000; threshold 2.0)
  \<^verbatim>\<open>should_alert\<close> of haha.py is true.
\<close>

theorem haha_should_alert_below_floor_counterexample:
  "(50000::real) < 90000
   \<and> haha_calculate_average_volume (tracking [(0, 10000), (0, 10000)]) 60000000 ''BBRI.JK'' = 10000
   \<and> volume_threshold (tracking [(0, 10000), (0, 10000)]) = 2
   \<and> haha_should_alert (tracking [(0, 10000), (0, 10000)]) 60000000 ''BBRI.JK'' 50000"
  by (simp add: haha_should_alert_def haha_calculate_average_volume_eq tracking_avg_two)
     (simp add: tracking_def init_monitor_def)

text \<open>
  C1, amended. Whatever the symbol, the history and the clock reading, for a current
  volume below the floor of 90000 \<^verbatim>\<open>should_alert\<close> of alert.py is false, whatever the
  windowed average and the threshold are; \<^verbatim>\<open>should_alert\<close> of haha.py has no floor and is
  decided there by the baseline and the ratio alone: it is true exactly when the windowed
  average is not 0 and current volume divided by it reaches the threshold. The instance
  below it: with average 10000 and threshold 2.0 a volume of 50000 has ratio 5.0; alert.py
  does not alert, haha.py does.
\<close>

theorem should_alert_below_floor:
  "current_volume < 90000 \<Longrightarrow>
     \<not> should_alert self now symbol current_volume
     \<and> haha_should_alert self now symbol current_volume
         = (haha_calculate_average_volume self now symbol \<noteq> 0
            \<and> volume_threshold self
                 \<le> current_volume / haha_calculate_average_volume self now symbol)"
  by (simp add: should_alert_def haha_should_alert_def Let_def)

theorem should_alert_below_floor_witness:
  "(50000::real) < 90000
   \<and> calculate_average_volume (tracking [(0, 10000), (0, 10000)]) 60000000 ''BBRI.JK'' = 10000
   \<and> volume_threshold (tracking [(0, 10000), (0, 10000)]) \<le> 50000 / 10000
   \<and> \<not> should_alert (tracking [(0, 10000), (0, 10000)]) 60000000 ''BBRI.JK'' 50000
   \<and> haha_should_alert (tracking [(0, 10000), (0, 10000)]) 60000000 ''BBRI.JK'' 50000"
proof -
  have a: "haha_calculate_average_volume (tracking [(0, 10000), (0, 10000)]) 60000000 ''BBRI.JK'' = 10000"
    by (simp add: haha_calculate_average_volume_eq tracking_avg_two)
  have t: "volume_threshold (tracking [(0, 10000), (0, 10000)]) = 2"
    by (simp add: tracking_def init_monitor_def)
  show ?thesis
    using should_alert_below_floor [of 50000 "tracking [(0, 10000), (0, 10000)]" 60000000 "''BBRI.JK''"]
    by (simp add: a t tracking_avg_two)
qed

text \<open>
  C2, as stated, fails: on a history whose windowed average is 10000 and a current volume
  of 50000, \<^verbatim>\<open>should_alert\<close> of alert.py answers no (below the floor) and that of haha.py
  answers yes (ratio 5.0 against the threshold 2.0).
\<close>

theorem should_alert_differs_counterexample:
  "should_alert (tracking [(0, 10000), (0, 10000)]) 60000000 ''BBRI.JK'' 50000
   \<noteq> haha_should_alert (tracking [(0, 10000), (0, 10000)]) 60000000 ''BBRI.JK'' 50000"
  by (simp add: should_alert_def haha_should_alert_def haha_calculate_average_volume_eq
      tracking_avg_two) (simp add: tracking_def init_monitor_def)

text \<open>
  C2, amended. The detector of alert.py is that of haha.py behind the floor: for every
  symbol, history, clock reading and current volume, \<^verbatim>\<open>should_alert\<close> of alert.py holds
  exactly when the current volume is at least 90000 and \<^verbatim>\<open>should_alert\<close> of haha.py holds.
  So the two agree on every volume at or above the floor, and below it alert.py never
  alerts while haha.py still applies the ratio test.
\<close>

theorem should_alert_floor_then_haha:
  "should_alert self now symbol current_volume
     = (90000 \<le> current_volume \<and> haha_should_alert self now symbol current_volume)"
  by (auto simp add: should_alert_def haha_should_alert_def haha_calculate_average_volume_eq Let_def)

text \<open>
  C3. Whenever the windowed average is the sentinel 0, the detector (of either file) is
  false, for every current volume, hence for every one at or above the floor. And the
  first sample of an instrument without history never alerts: after the store step of the
  polling cycle the history holds that one sample, the average read at any later clock
  reading \<open>t2\<close> is the sentinel, and the detector is false whatever the volume.
\<close>

theorem should_alert_no_baseline:
  "(calculate_average_volume self now symbol = 0 \<longrightarrow> \<not> should_alert self now symbol v)
   \<and> (haha_calculate_average_volume self now symbol = 0 \<longrightarrow> \<not> haha_should_alert self now symbol v)
   \<and> (history_of self symbol = [] \<longrightarrow>
        \<not> should_alert (store_volume self symbol t1 v) t2 symbol v
        \<and> \<not> haha_should_alert (store_volume self symbol t1 v) t2 symbol v)"
  by (simp add: should_alert_def haha_should_alert_def haha_calculate_average_volume_eq
      first_sample_no_baseline)

theorem should_alert_no_baseline_witness:
  "(90000::real) \<le> 5000000
   \<and> history_of init_monitor ''BBRI.JK'' = []
   \<and> calculate_average_volume (store_volume init_monitor ''BBRI.JK'' 0 5000000) 1 ''BBRI.JK'' = 0
   \<and> haha_calculate_average_volume (store_volume init_monitor ''BBRI.JK'' 0 5000000) 1 ''BBRI.JK'' = 0
   \<and> \<not> should_alert (store_volume init_monitor ''BBRI.JK'' 0 5000000) 1 ''BBRI.JK'' 5000000
   \<and> \<not> haha_should_alert (store_volume init_monitor ''BBRI.JK'' 0 5000000) 1 ''BBRI.JK'' 5000000"
proof -
  have h: "history_of init_monitor ''BBRI.JK'' = []"
    by (simp add: history_of_def init_monitor_def)
  have a: "calculate_average_volume (store_volume init_monitor ''BBRI.JK'' 0 5000000) 1 ''BBRI.JK'' = 0"
    by (simp add: first_sample_no_baseline h)
  show ?thesis
    using should_alert_no_baseline [of init_monitor 1 "''BBRI.JK''" 5000000 0 1] h a
    by (simp add: haha_calculate_average_volume_eq)
qed

text \<open>
  C4. With the current volume at or above the floor and a windowed average other than 0,
  \<^verbatim>\<open>should_alert\<close> holds exactly when current volume divided by the average is greater
  than or equal to the threshold. The instances below it, at average 100000 and threshold
  2.0: volume 200000 (ratio exactly 2.0) alerts, volume 150000 (ratio 1.5) does not.
\<close>

theorem should_alert_ratio_boundary:
  "90000 \<le> current_volume \<Longrightarrow> calculate_average_volume self now symbol \<noteq> 0 \<Longrightarrow>
     should_alert self now symbol current_volume
       = (volume_threshold self \<le> current_volume / calculate_average_volume self now symbol)"
  by (simp add: should_alert_def)

theorem should_alert_ratio_boundary_witness:
  "calculate_average_volume (tracking [(0, 100000), (0, 100000)]) 60000000 ''BBRI.JK'' = 100000
   \<and> volume_threshold (tracking [(0, 100000), (0, 100000)]) = 2
   \<and> should_alert (tracking [(0, 100000), (0, 100000)]) 60000000 ''BBRI.JK'' 200000
   \<and> \<not> should_alert (tracking [(0, 100000), (0, 100000)]) 60000000 ''BBRI.JK'' 150000"
proof -
  have a: "calculate_average_volume (tracking [(0, 100000), (0, 100000)]) 60000000 ''BBRI.JK'' = 100000"
    by (simp add: tracking_avg_two)
  have t: "volume_threshold (tracking [(0, 100000), (0, 100000)]) = 2"
    by (simp add: tracking_def init_monitor_def)
  show ?thesis
    using should_alert_ratio_boundary [of 200000 "tracking [(0, 100000), (0, 100000)]" 60000000 "''BBRI.JK''"]
      should_alert_ratio_boundary [of 150000 "tracking [(0, 100000), (0, 100000)]" 60000000 "''BBRI.JK''"]
    by (simp add: a t)
qed

section \<open>The volume history store\<close>

text \<open>
  C5, as stated, fails in the direction from the sentinel to its three causes: 0 is also
  the mean of volumes that sum to 0. With two samples of volume 0 inside the window the
  key is present, the history has two samples, the window is not empty, and the result is
  0 all the same.
\<close>

theorem zero_mean_counterexample:
  "volume_history (tracking [(0, 0), (0, 0)]) ''BBRI.JK'' \<noteq> None
   \<and> \<not> length (history_of (tracking [(0, 0), (0, 0)]) ''BBRI.JK'') < 2
   \<and> in_window (tracking [(0, 0), (0, 0)]) 60000000 (history_of (tracking [(0, 0), (0, 0)]) ''BBRI.JK'') \<noteq> []
   \<and> calculate_average_volume (tracking [(0, 0), (0, 0)]) 60000000 ''BBRI.JK'' = 0"
  by (simp add: tracking_avg_two)
     (simp add: tracking_def init_monitor_def history_of_def in_window_def timedelta_minutes_def)

text \<open>
  C5, amended. For every symbol, clock reading and configuration, the windowed average is
  0 whenever the symbol is not a key of the history, or its history has fewer than two
  samples, or no sample has a timestamp at or after the start of the trailing window
  (\<open>now\<close> minus the window length; the code tests no upper end); in every other case it is
  the arithmetic mean of the volumes of the samples inside the window, which may itself
  be 0.
\<close>

theorem calculate_average_volume_sentinel_or_mean:
  "calculate_average_volume self now symbol =
     (if volume_history self symbol = None
         \<or> length (history_of self symbol) < 2
         \<or> in_window self now (history_of self symbol) = []
      then 0
      else sum_list (map snd (in_window self now (history_of self symbol)))
             / real (length (in_window self now (history_of self symbol))))"
  by (cases "volume_history self symbol")
     (simp_all add: calculate_average_volume_def history_of_def in_window_def np_mean_def Let_def)

lemma in_window_subset: "set (in_window cfg now h) \<subseteq> set h"
  by (auto simp add: in_window_def)

lemma filter_horizon_kept:
  "e \<in> set (filter (\<lambda>(ts, vol). ts \<ge> c) h @ [(t, v)]) \<Longrightarrow> c \<le> t \<Longrightarrow> c \<le> fst e"
  by auto

text \<open>
  C6. Pruning invariant. After the store step of a polling cycle (append, then prune) at
  clock reading \<open>current_time\<close>, the symbol is a key of the history and every entry of its
  list has a timestamp not older than \<open>current_time\<close> minus four hours. Hence, whatever
  the window length and the later clock reading, the samples a windowed average selects
  from that list are not older than the horizon either.
\<close>

theorem store_volume_within_horizon:
  "\<exists>h'. volume_history (store_volume self symbol current_time vol) symbol = Some h'
     \<and> (\<forall>e \<in> set h'. current_time - timedelta_hours 4 \<le> fst e)
     \<and> (\<forall>cfg now. \<forall>e \<in> set (in_window cfg now h'). current_time - timedelta_hours 4 \<le> fst e)"
proof -
  let ?c = "current_time - timedelta_hours 4"
  let ?h = "filter (\<lambda>(ts, vol). ts \<ge> ?c) (history_of self symbol) @ [(current_time, vol)]"
  have c: "?c \<le> current_time"
    by (simp add: timedelta_hours_def)
  have kept: "?c \<le> fst e" if "e \<in> set ?h" for e
    using that c by (rule filter_horizon_kept)
  have win: "?c \<le> fst e" if "e \<in> set (in_window cfg now ?h)" for cfg now e
    using that in_window_subset [of cfg now ?h] kept by blast
  have "volume_history (store_volume self symbol current_time vol) symbol = Some ?h"
    by (rule store_volume_history)
  with kept win show ?thesis
    by blast
qed

theorem store_volume_within_horizon_witness:
  "volume_history (store_volume (tracking [(0, 7), (20000000000, 8)]) ''BBRI.JK'' 20000000000 9) ''BBRI.JK''
     = Some [(20000000000, 8), (20000000000, 9)]
   \<and> (20000000000, 8) \<in> set [(20000000000 :: int, 8 :: real), (20000000000, 9)]
   \<and> (20000000000, 8) \<in> set (in_window init_monitor 20000000000 [(20000000000, 8), (20000000000, 9)])
   \<and> 20000000000 - timedelta_hours 4 \<le> fst (20000000000 :: int, 8 :: real)
   \<and> \<not> 20000000000 - timedelta_hours 4 \<le> fst (0 :: int, 7 :: real)"
proof -
  let ?m = "tracking [(0, 7), (20000000000, 8)]"
  have hist: "history_of ?m ''BBRI.JK'' = [(0, 7), (20000000000, 8)]"
    by (simp add: history_of_def tracking_def)
  have stored: "volume_history (store_volume ?m ''BBRI.JK'' 20000000000 9) ''BBRI.JK''
                  = Some [(20000000000, 8), (20000000000, 9)]"
    by (simp add: store_volume_history hist timedelta_hours_def)
  obtain h' where h': "volume_history (store_volume ?m ''BBRI.JK'' 20000000000 9) ''BBRI.JK'' = Some h'"
    and kept: "\<forall>e \<in> set h'. 20000000000 - timedelta_hours 4 \<le> fst e"
    using store_volume_within_horizon [of ?m "''BBRI.JK''" 20000000000 9] by blast
  from h' stored have "h' = [(20000000000, 8), (20000000000, 9)]"
    by simp
  with kept have "20000000000 - timedelta_hours 4 \<le> fst (20000000000 :: int, 8 :: real)"
    by simp
  moreover have "\<not> 20000000000 - timedelta_hours 4 \<le> fst (0 :: int, 7 :: real)"
    by (simp add: timedelta_hours_def)
  moreover have "(20000000000, 8) \<in> set (in_window init_monitor 20000000000 [(20000000000, 8), (20000000000, 9)])"
    by (simp add: in_window_def init_monitor_def timedelta_minutes_def)
  ultimately show ?thesis
    using stored by simp
qed

text \<open>
  C7. The store step keeps the order of what it retains, with no assumption on the
  timestamps: the new history is a list \<open>kept\<close> of entries of the prior history, in their
  prior order (a subsequence of it), followed by the new observation; so it is a
  subsequence of the prior history with the new observation appended.
\<close>

theorem store_volume_keeps_order:
  "\<exists>kept. volume_history (store_volume self symbol current_time vol) symbol
             = Some (kept @ [(current_time, vol)])
     \<and> subseq kept (history_of self symbol)
     \<and> subseq (kept @ [(current_time, vol)]) (history_of self symbol @ [(current_time, vol)])"
proof -
  let ?kept = "filter (\<lambda>(ts, vol). ts \<ge> current_time - timedelta_hours 4) (history_of self symbol)"
  have "subseq ?kept (history_of self symbol)"
    by simp
  moreover from this have "subseq (?kept @ [(current_time, vol)]) (history_of self symbol @ [(current_time, vol)])"
    by (simp add: subseq_append)
  ultimately show ?thesis
    using store_volume_history by blast
qed

section \<open>The session gate\<close>

lemma hour_wall_clock:
  assumes "0 \<le> h" "h < 24" "0 \<le> mi" "mi < 60" "0 \<le> s" "s < 60" "0 \<le> us" "us < 1000000"
  shows "hour off (wall_clock off d h mi s us) = h"
proof -
  let ?secs = "((d * 24 + h) * 60 + mi) * 60 + s - off"
  have "(?secs * 1000000 + us) div 1000000 = ?secs"
    using assms by simp
  then have "hour off (wall_clock off d h mi s us) = ((((d * 24 + h) * 60 + mi) * 60 + s) div 3600) mod 24"
    by (simp add: hour_def wall_clock_def)
  also have "(((d * 24 + h) * 60 + mi) * 60 + s) = (d * 24 + h) * 3600 + (mi * 60 + s)"
    by algebra
  also have "((d * 24 + h) * 3600 + (mi * 60 + s)) div 3600 = d * 24 + h"
    using assms by simp
  also have "(d * 24 + h) mod 24 = h"
    using assms by simp
  finally show ?thesis .
qed

lemma init_monitor_gate:
  "tz init_monitor = 25200" "trading_start init_monitor = 9" "trading_end init_monitor = 16"
  by (simp_all add: init_monitor_def)

text \<open>
  C8. At an instant whose wall clock in the configured zone shows the hour \<open>h\<close> (with any
  minute, second and microsecond, on any day), the session gate is true exactly when
  \<open>trading_start \<le> h < trading_end\<close>. The instances below it, with the configured
  start 9 and end 16 in WIB: false at 08:00, true at 09:00, true in the last microsecond
  of 15:59, false at 16:00.
\<close>

theorem is_trading_hours_half_open:
  assumes "0 \<le> h" "h < 24" "0 \<le> mi" "mi < 60" "0 \<le> s" "s < 60" "0 \<le> us" "us < 1000000"
  shows "is_trading_hours self (wall_clock (tz self) d h mi s us)
           = (trading_start self \<le> h \<and> h < trading_end self)"
  by (simp add: is_trading_hours_def hour_wall_clock [OF assms])

theorem is_trading_hours_half_open_witness:
  "\<not> is_trading_hours init_monitor (wall_clock 25200 20000 8 0 0 0)
   \<and> is_trading_hours init_monitor (wall_clock 25200 20000 9 0 0 0)
   \<and> is_trading_hours init_monitor (wall_clock 25200 20000 15 59 59 999999)
   \<and> \<not> is_trading_hours init_monitor (wall_clock 25200 20000 16 0 0 0)"
  using is_trading_hours_half_open [where self = init_monitor and d = 20000 and h = 8 and mi = 0 and s = 0 and us = 0]
    is_trading_hours_half_open [where self = init_monitor and d = 20000 and h = 9 and mi = 0 and s = 0 and us = 0]
    is_trading_hours_half_open [where self = init_monitor and d = 20000 and h = 15 and mi = 59 and s = 59 and us = 999999]
    is_trading_hours_half_open [where self = init_monitor and d = 20000 and h = 16 and mi = 0 and s = 0 and us = 0]
  by (simp add: init_monitor_gate)

section \<open>The notification dispatcher\<close>

lemma attempted_append: "attempted (xs @ ys) = attempted xs @ attempted ys"
  by (induction xs rule: attempted.induct) simp_all

lemma delivered_append: "delivered (xs @ ys) = delivered xs @ delivered ys"
  by (induction xs rule: delivered.induct) simp_all

lemma send_failures_append: "send_failures (xs @ ys) = send_failures xs @ send_failures ys"
  by (induction xs rule: send_failures.induct) simp_all

lemma failures_append: "failures (xs @ ys) = failures xs @ failures ys"
  by (induction xs rule: failures.induct) simp_all

lemma pin_calls_append: "pin_calls (xs @ ys) = pin_calls xs @ pin_calls ys"
  by (induction xs rule: pin_calls.induct) simp_all

lemma logged_append: "logged (xs @ ys) = logged xs @ logged ys"
  by (induction xs rule: logged.induct) simp_all

lemma for_each_group_attempted:
  assumes "\<And>g w. attempted (fst (body g w)) = [g]"
  shows "attempted (fst (for_each_group body gs w)) = gs"
proof (induction gs arbitrary: w)
  case Nil
  show ?case by simp
next
  case (Cons g gs)
  obtain effs w' where b: "body g w = (effs, w')"
    by (cases "body g w")
  obtain effs' w'' where r: "for_each_group body gs w' = (effs', w'')"
    by (cases "for_each_group body gs w'")
  from assms [of g w] b have "attempted effs = [g]" by simp
  moreover from Cons.IH [of w'] r have "attempted effs' = gs" by simp
  ultimately show ?case
    by (simp add: b r attempted_append)
qed

lemma for_each_group_agree:
  assumes app_f: "\<And>xs ys. f (xs @ ys) = f xs @ f ys"
    and app_g: "\<And>xs ys. g (xs @ ys) = g xs @ g ys"
    and nil: "f [] = g []"
    and step: "\<And>d w. f (fst (body d w)) = g (fst (body d w))"
  shows "f (fst (for_each_group body gs w)) = g (fst (for_each_group body gs w))"
proof (induction gs arbitrary: w)
  case Nil
  show ?case by (simp add: nil)
next
  case (Cons d gs)
  obtain effs w' where b: "body d w = (effs, w')"
    by (cases "body d w")
  obtain effs' w'' where r: "for_each_group body gs w' = (effs', w'')"
    by (cases "for_each_group body gs w'")
  from step [of d w] b have "f effs = g effs" by simp
  moreover from Cons.IH [of w'] r have "f effs' = g effs'" by simp
  ultimately show ?case
    by (simp add: b r app_f app_g)
qed

lemma send_alert_to_attempted: "attempted (fst (send_alert_to b message g w)) = [g]"
  by (simp add: send_alert_to_def split: prod.splits sum.splits)

lemma send_alert_to_logged:
  "logged (fst (send_alert_to b message g w)) = send_failures (fst (send_alert_to b message g w))"
  by (simp add: send_alert_to_def split: prod.splits sum.splits)

lemma send_alert_to_no_pin:
  "pin_calls (fst (send_alert_to b message g w)) = []"
  by (simp add: send_alert_to_def split: prod.splits sum.splits)

lemma for_each_group_no_pin:
  assumes "\<And>g w. pin_calls (fst (body g w)) = []"
  shows "pin_calls (fst (for_each_group body gs w)) = []"
proof (induction gs arbitrary: w)
  case Nil
  show ?case by simp
next
  case (Cons g gs)
  obtain effs w' where b: "body g w = (effs, w')"
    by (cases "body g w")
  obtain effs' w'' where r: "for_each_group body gs w' = (effs', w'')"
    by (cases "for_each_group body gs w'")
  from assms [of g w] b have "pin_calls effs = []" by simp
  moreover from Cons.IH [of w'] r have "pin_calls effs' = []" by simp
  ultimately show ?case
    by (simp add: b r pin_calls_append)
qed

lemma send_volume_alert_run:
  "send_volume_alert self b message w
     = (Inr (), for_each_group (send_alert_to b message) (monitored_groups self) w)"
  by (simp add: send_volume_alert_def split: prod.splits)

lemma broadcast_message_run:
  "broadcast_message self b text w
     = (Inr (), for_each_group (broadcast_to b text) (monitored_groups self) w)"
  by (simp add: broadcast_message_def split: prod.splits)

lemma abc_run:
  "send_volume_alert (subscribed [1, 2, 3]) (test_bot [2] []) ''alert'' ()
     = (Inr (), [SendMessage 1 ''alert'' (Inr 1),
                 SendMessage 2 ''alert'' (Inl ''Forbidden''), LogError 2 ''Forbidden'',
                 SendMessage 3 ''alert'' (Inr 3)], ())"
  by (simp add: send_volume_alert_def subscribed_def init_monitor_def send_alert_to_def test_bot_def)

lemma broadcast_to_attempted: "attempted (fst (broadcast_to b text g w)) = [g]"
  by (simp add: broadcast_to_def split: prod.splits sum.splits)

lemma broadcast_to_logged:
  "logged (fst (broadcast_to b text g w)) = failures (fst (broadcast_to b text g w))"
  by (simp add: broadcast_to_def split: prod.splits sum.splits)

lemma broadcast_to_pins:
  "pin_calls (fst (broadcast_to b text g w))
     = filter (\<lambda>(g, mid). g < 0) (delivered (fst (broadcast_to b text g w)))"
  by (simp add: broadcast_to_def split: prod.splits sum.splits)

text \<open>
  C9, as stated, fails in what the caller receives: \<^verbatim>\<open>send_volume_alert\<close> returns
  \<^verbatim>\<open>None\<close> whether a destination failed or not. Broadcasting to three destinations, the
  caller gets the same value when the second one fails as when none does.
\<close>

theorem send_volume_alert_report_counterexample:
  "fst (send_volume_alert (subscribed [1, 2, 3]) (test_bot [2] []) ''alert'' ()) = Inr ()
   \<and> fst (send_volume_alert (subscribed [1, 2, 3]) (test_bot [] []) ''alert'' ()) = Inr ()
   \<and> send_failures (fst (snd (send_volume_alert (subscribed [1, 2, 3]) (test_bot [2] []) ''alert'' ())))
       = [(2, ''Forbidden'')]
   \<and> send_failures (fst (snd (send_volume_alert (subscribed [1, 2, 3]) (test_bot [] []) ''alert'' ())))
       = []"
  by (simp add: send_volume_alert_def subscribed_def init_monitor_def send_alert_to_def test_bot_def)

text \<open>
  C9, amended. For every list of destinations, every message and every behaviour of the
  client, \<^verbatim>\<open>send_volume_alert\<close> returns normally (the caller receives no exception, and no
  report: the value is \<^verbatim>\<open>None\<close>); it calls \<^verbatim>\<open>send_message\<close> once for each destination, in
  order, whatever the outcomes of the other calls; and each failure is written to the log
  with its destination and its error, the log holding exactly the failed sends.
  Broadcasting to three destinations of which the second fails delivers to the first and
  the third and logs the second.
\<close>

theorem send_volume_alert_isolates_failures:
  "(\<exists>effs w'. send_volume_alert self b message w = (Inr (), effs, w')
      \<and> attempted effs = monitored_groups self
      \<and> logged effs = send_failures effs)
   \<and> (\<exists>effs w'. send_volume_alert (subscribed [1, 2, 3]) (test_bot [2] []) ''alert'' () = (Inr (), effs, w')
      \<and> attempted effs = [1, 2, 3]
      \<and> delivered effs = [(1, 1), (3, 3)]
      \<and> logged effs = [(2, ''Forbidden'')])"
proof
  let ?run = "for_each_group (send_alert_to b message) (monitored_groups self) w"
  have "send_volume_alert self b message w = (Inr (), fst ?run, snd ?run)"
    by (simp add: send_volume_alert_run)
  moreover have "attempted (fst ?run) = monitored_groups self"
    by (rule for_each_group_attempted) (rule send_alert_to_attempted)
  moreover have "logged (fst ?run) = send_failures (fst ?run)"
    by (rule for_each_group_agree) (simp_all add: logged_append send_failures_append send_alert_to_logged)
  ultimately show "\<exists>effs w'. send_volume_alert self b message w = (Inr (), effs, w')
      \<and> attempted effs = monitored_groups self \<and> logged effs = send_failures effs"
    by blast
next
  show "\<exists>effs w'. send_volume_alert (subscribed [1, 2, 3]) (test_bot [2] []) ''alert'' () = (Inr (), effs, w')
      \<and> attempted effs = [1, 2, 3]
      \<and> delivered effs = [(1, 1), (3, 3)]
      \<and> logged effs = [(2, ''Forbidden'')]"
    by (simp add: abc_run)
qed

text \<open>
  C10, as stated, fails on the path that delivers alerts: \<^verbatim>\<open>send_volume_alert\<close> never
  pins. An alert delivered to the group \<open>-1001\<close> is followed by no pin call.
\<close>

theorem send_volume_alert_no_pin_counterexample:
  "delivered (fst (snd (send_volume_alert (subscribed [-1001]) (test_bot [] []) ''alert'' ())))
     = [(-1001, 1001)]
   \<and> pin_calls (fst (snd (send_volume_alert (subscribed [-1001]) (test_bot [] []) ''alert'' ()))) = []"
  by (simp add: send_volume_alert_def subscribed_def init_monitor_def send_alert_to_def test_bot_def)

text \<open>
  C10, amended. \<^verbatim>\<open>broadcast_message\<close> of alert.py returns normally for every client
  behaviour; it calls \<^verbatim>\<open>send_message\<close> once for each destination in order, whatever
  fails before; its pin calls are exactly the successful sends to destinations with a
  negative identifier, each with the id of the message just sent; and every failure, of
  a send or of a pin, is logged and nothing more. \<^verbatim>\<open>send_volume_alert\<close>, which delivers
  the alerts, makes no pin call. In the instance, the pin fails in the first group, and
  the second group and the private chat still get the message.
\<close>

theorem broadcast_message_pins_groups:
  "(\<exists>effs w'. broadcast_message self b text w = (Inr (), effs, w')
      \<and> attempted effs = monitored_groups self
      \<and> pin_calls effs = filter (\<lambda>(g, mid). g < 0) (delivered effs)
      \<and> logged effs = failures effs)
   \<and> (\<exists>effs w'. send_volume_alert self b text w = (Inr (), effs, w') \<and> pin_calls effs = [])
   \<and> broadcast_message (subscribed [-1, -2, 3]) (test_bot [] [-1]) ''hello'' ()
       = (Inr (), [SendMessage (-1) ''hello'' (Inr 1), PinChatMessage (-1) 1 (Inl ''BadRequest''),
                   LogError (-1) ''BadRequest'',
                   SendMessage (-2) ''hello'' (Inr 2), PinChatMessage (-2) 2 (Inr ()),
                   SendMessage 3 ''hello'' (Inr 3)], ())"
proof (intro conjI)
  let ?run = "for_each_group (broadcast_to b text) (monitored_groups self) w"
  have "broadcast_message self b text w = (Inr (), fst ?run, snd ?run)"
    by (simp add: broadcast_message_run)
  moreover have "attempted (fst ?run) = monitored_groups self"
    by (rule for_each_group_attempted) (rule broadcast_to_attempted)
  moreover have "pin_calls (fst ?run) = filter (\<lambda>(g, mid). g < 0) (delivered (fst ?run))"
    by (rule for_each_group_agree [where f = pin_calls])
       (simp_all add: pin_calls_append delivered_append broadcast_to_pins)
  moreover have "logged (fst ?run) = failures (fst ?run)"
    by (rule for_each_group_agree) (simp_all add: logged_append failures_append broadcast_to_logged)
  ultimately show "\<exists>effs w'. broadcast_message self b text w = (Inr (), effs, w')
      \<and> attempted effs = monitored_groups self
      \<and> pin_calls effs = filter (\<lambda>(g, mid). g < 0) (delivered effs)
      \<and> logged effs = failures effs"
    by blast
next
  let ?run = "for_each_group (send_alert_to b text) (monitored_groups self) w"
  have "send_volume_alert self b text w = (Inr (), fst ?run, snd ?run)"
    by (simp add: send_volume_alert_run)
  moreover have "pin_calls (fst ?run) = []"
    by (rule for_each_group_no_pin) (rule send_alert_to_no_pin)
  ultimately show "\<exists>effs w'. send_volume_alert self b text w = (Inr (), effs, w') \<and> pin_calls effs = []"
    by blast
next
  show "broadcast_message (subscribed [-1, -2, 3]) (test_bot [] [-1]) ''hello'' ()
       = (Inr (), [SendMessage (-1) ''hello'' (Inr 1), PinChatMessage (-1) 1 (Inl ''BadRequest''),
                   LogError (-1) ''BadRequest'',
                   SendMessage (-2) ''hello'' (Inr 2), PinChatMessage (-2) 2 (Inr ()),
                   SendMessage 3 ''hello'' (Inr 3)], ())"
    by (simp add: broadcast_message_def subscribed_def init_monitor_def broadcast_to_def test_bot_def)
qed

end
